theory Spec2Isabelle
  imports Main
begin

section \<open>JavaScript values, requests and middleware outcomes\<close>

text \<open>
  Values as the server sees them after JSON parsing. A string is a list of code units
  (\<^typ>\<open>char\<close>, so the code units \<open>0\<close> to \<open>255\<close>); a number is only ever tested for being
  zero, so it is an \<^typ>\<open>int\<close>; an object is the list of its own enumerable properties in
  insertion order.
\<close>

datatype jsval =
    JUndefined
  | JNull
  | JBool bool
  | JNum int
  | JStr string
  | JArr "jsval list"
  | JObj "(string \<times> jsval) list"

type_synonym jsobject = "(string \<times> jsval) list"

text \<open>\<open>!v\<close> is \<open>\<not> truthy v\<close>.\<close>

fun truthy :: "jsval \<Rightarrow> bool" where
  "truthy JUndefined = False"
| "truthy JNull = False"
| "truthy (JBool b) = b"
| "truthy (JNum n) = (n \<noteq> 0)"
| "truthy (JStr s) = (s \<noteq> [])"
| "truthy (JArr xs) = True"
| "truthy (JObj fs) = True"

fun typeof :: "jsval \<Rightarrow> string" where
  "typeof JUndefined = ''undefined''"
| "typeof JNull = ''object''"
| "typeof (JBool b) = ''boolean''"
| "typeof (JNum n) = ''number''"
| "typeof (JStr s) = ''string''"
| "typeof (JArr xs) = ''object''"
| "typeof (JObj fs) = ''object''"

text \<open>\<open>o.name\<close> on an object literal or a decoded JSON object: a missing property reads as
  \<open>undefined\<close>.\<close>

definition get_prop :: "jsobject \<Rightarrow> string \<Rightarrow> jsval" where
  "get_prop fs name = (case map_of fs name of None \<Rightarrow> JUndefined | Some v \<Rightarrow> v)"

text \<open>
  The request object \<open>req\<close>; \<open>req_method\<close> is \<open>req.method\<close>. \<open>headers\<close> is \<open>req.headers\<close>:
  Node stores the header names lower-cased, and a header that was not sent reads as
  \<open>undefined\<close> (\<open>None\<close>).
\<close>

record request =
  req_method :: string
  path :: string
  ip :: string
  headers :: "(string \<times> string) list"
  query :: jsval
  body :: jsval
  user :: jsval

text \<open>
  \<open>String.prototype.toLowerCase\<close> on the code units \<open>0\<close> to \<open>255\<close>: the letters A to Z and
  the upper-case letters of Latin-1 (\<open>0xC0\<close> to \<open>0xDE\<close> without the multiplication sign
  \<open>0xD7\<close>) move up by 32.
\<close>

definition toLowerCase_unit :: "char \<Rightarrow> char" where
  "toLowerCase_unit c =
     (let n = (of_char c :: nat)
      in if (65 \<le> n \<and> n \<le> 90) \<or> (192 \<le> n \<and> n \<le> 222 \<and> n \<noteq> 215) then char_of (n + 32) else c)"

definition toLowerCase :: "string \<Rightarrow> string" where
  "toLowerCase s = map toLowerCase_unit s"

text \<open>
  \<open>req.get(name)\<close> of Express, for the non-empty names the code passes: the name is
  lower-cased; under \<open>referer\<close> and \<open>referrer\<close> it answers
  \<open>this.headers.referrer || this.headers.referer\<close>, and under any other name
  \<open>this.headers[lc]\<close>.
\<close>

definition req_get :: "request \<Rightarrow> string \<Rightarrow> string option" where
  "req_get req name =
     (let lc = toLowerCase name
      in if lc = ''referer'' \<or> lc = ''referrer''
         then (case map_of (headers req) ''referrer'' of
                 None \<Rightarrow> map_of (headers req) ''referer''
               | Some r \<Rightarrow> if r \<noteq> [] then Some r else map_of (headers req) ''referer'')
         else map_of (headers req) lc)"

text \<open>
  What a middleware or handler does with a request: it calls \<open>next()\<close>, it answers with
  \<open>res.status(code).json(body)\<close>, or an exception leaves it.
\<close>

datatype outcome =
    Next
  | Responded nat jsval
  | Thrown string

section \<open>Input sanitization (securityMiddleware.js, sanitizeInput)\<close>

text \<open>
  \<open>String.prototype.trim\<close> removes the white space and line terminator code units from both
  ends. Among the code units \<open>0\<close> to \<open>255\<close> these are TAB, LF, VT, FF, CR, SPACE and NBSP.
\<close>

definition js_whitespace :: "char \<Rightarrow> bool" where
  "js_whitespace c = (c \<in> set [CHR 0x09, CHR 0x0A, CHR 0x0B, CHR 0x0C, CHR 0x0D, CHR 0x20, CHR 0xA0])"

definition trim :: "string \<Rightarrow> string" where
  "trim s = rev (dropWhile js_whitespace (rev (dropWhile js_whitespace s)))"

text \<open>The loop body: \<open>if (typeof o[key] === 'string') o[key] = o[key].trim()\<close>.\<close>

definition trim_if_string :: "jsval \<Rightarrow> jsval" where
  "trim_if_string v = (if typeof v = ''string'' then (case v of JStr s \<Rightarrow> JStr (trim s) | _ \<Rightarrow> v) else v)"

text \<open>\<open>for (const key in o)\<close> over the properties of an object, in order.\<close>

fun trim_fields :: "jsobject \<Rightarrow> jsobject" where
  "trim_fields [] = []"
| "trim_fields ((key, v) # fs) = (key, trim_if_string v) # trim_fields fs"

text \<open>The same loop over an array visits its indices.\<close>

fun trim_elements :: "jsval list \<Rightarrow> jsval list" where
  "trim_elements [] = []"
| "trim_elements (v # vs) = trim_if_string v # trim_elements vs"

text \<open>
  The loop on any value. A primitive has no enumerable property that can be written (the
  module is not in strict mode, so the write to an index of a string primitive is ignored),
  so it is left as it is.
\<close>

fun for_in_trim :: "jsval \<Rightarrow> jsval" where
  "for_in_trim (JObj fs) = JObj (trim_fields fs)"
| "for_in_trim (JArr vs) = JArr (trim_elements vs)"
| "for_in_trim v = v"

definition sanitizeInput :: "request \<Rightarrow> request \<times> outcome" where
  "sanitizeInput req =
     (let req1 = (if truthy (query req) then req\<lparr>query := for_in_trim (query req)\<rparr> else req);
          req2 = (if truthy (body req1) \<and> typeof (body req1) = ''object''
                  then req1\<lparr>body := for_in_trim (body req1)\<rparr> else req1)
      in (req2, Next))"

section \<open>Origin check (securityMiddleware.js, csrfProtection)\<close>

text \<open>\<open>process.env\<close>: a variable that is not set reads as \<open>undefined\<close> (\<open>None\<close>).\<close>

record environment =
  SITE_URL :: "string option"
  SUPABASE_URL :: "string option"

text \<open>
  \<open>new URL(s).host\<close> is the platform's URL parser: it is a parameter \<open>url_host\<close> of the
  model, \<open>None\<close> where the constructor throws.

  \<open>allowedHost\<close>: \<open>process.env.SITE_URL ? new URL(process.env.SITE_URL).host : req.get('host')\<close>.
  The constructor is called outside any \<open>try\<close>, so its exception leaves the middleware
  (\<open>Inl\<close>).
\<close>

definition allowedHost :: "(string \<Rightarrow> string option) \<Rightarrow> environment \<Rightarrow> request \<Rightarrow> string + string option" where
  "allowedHost url_host env req =
     (case SITE_URL env of
        None \<Rightarrow> Inr (req_get req ''host'')
      | Some site \<Rightarrow>
          if site = [] then Inr (req_get req ''host'')
          else (case url_host site of
                  None \<Rightarrow> Inl ''TypeError: Invalid URL''
                | Some h \<Rightarrow> Inr (Some h)))"

text \<open>
  \<open>requestHost\<close> starts as \<open>null\<close> (\<open>None\<close>); the two constructor calls are each inside a
  \<open>try\<close> whose \<open>catch\<close> only logs. The Referer header is read only when the Origin header is
  falsy (not sent, or empty).
\<close>

definition requestHost :: "(string \<Rightarrow> string option) \<Rightarrow> request \<Rightarrow> string option" where
  "requestHost url_host req =
     (let origin = req_get req ''origin'';
          referer = req_get req ''referer''
      in if origin \<noteq> None \<and> origin \<noteq> Some [] then url_host (the origin)
         else if referer \<noteq> None \<and> referer \<noteq> Some [] then url_host (the referer)
         else None)"

definition invalid_origin :: outcome where
  "invalid_origin = Responded 403 (JObj
     [(''error'', JStr ''Invalid request origin''),
      (''details'', JStr ''CSRF protection: Origin/Referer header validation failed'')])"

definition csrfProtection :: "(string \<Rightarrow> string option) \<Rightarrow> environment \<Rightarrow> request \<Rightarrow> outcome" where
  "csrfProtection url_host env req =
     (if req_method req \<in> set [''GET'', ''HEAD'', ''OPTIONS''] then Next
      else (case allowedHost url_host env req of
              Inl err \<Rightarrow> Thrown err
            | Inr allowed \<Rightarrow>
                (let rh = requestHost url_host req
                 in if rh = None \<or> rh = Some [] \<or> rh \<noteq> allowed then invalid_origin
                    else Next)))"

section \<open>Auth middleware (middleware/authMiddleware.js)\<close>

text \<open>
  An awaited promise either resolves to a value or rejects, and then the \<open>await\<close> throws.
  The token verifier resolves to \<open>null\<close> (\<open>None\<close>) or to the decoded payload object.
\<close>

datatype 'a promise = Resolved 'a | Rejected string

type_synonym verifier = "jsval \<Rightarrow> jsobject option promise"

definition unauthorized :: "string \<Rightarrow> outcome" where
  "unauthorized msg = Responded 401 (JObj [(''error'', JStr msg), (''success'', JBool False)])"

definition authentication_failed :: outcome where
  "authentication_failed = Responded 500 (JObj [(''error'', JStr ''Authentication failed''), (''success'', JBool False)])"

text \<open>\<open>userData.role || 'user'\<close>.\<close>

definition role_or_user :: "jsval \<Rightarrow> jsval" where
  "role_or_user r = (if truthy r then r else JStr ''user'')"

definition user_context :: "jsobject \<Rightarrow> jsval" where
  "user_context userData = JObj
     [(''id'', get_prop userData ''sub''),
      (''email'', get_prop userData ''email''),
      (''email_verified'', get_prop userData ''email_verified''),
      (''role'', role_or_user (get_prop userData ''role''))]"

text \<open>
  The middleware returns the request as it leaves it, what it did, and the tokens it handed
  to the verifier, in order.
\<close>

definition authMiddleware :: "verifier \<Rightarrow> request \<Rightarrow> request \<times> outcome \<times> jsval list" where
  "authMiddleware verifyJwt_fn req =
     (case map_of (headers req) ''authorization'' of
        None \<Rightarrow> (req, unauthorized ''Authorization header required'', [])
      | Some authHeader \<Rightarrow>
          if authHeader = [] \<or> take 7 authHeader \<noteq> ''Bearer ''
          then (req, unauthorized ''Authorization header required'', [])
          else (let token = drop 7 authHeader
                in if token = [] then (req, unauthorized ''Token is required'', [])
                   else (case verifyJwt_fn (JStr token) of
                           Rejected err \<Rightarrow> (req, authentication_failed, [JStr token])
                         | Resolved None \<Rightarrow>
                             (req, unauthorized ''Invalid or expired token'', [JStr token])
                         | Resolved (Some userData) \<Rightarrow>
                             (req\<lparr>user := user_context userData\<rparr>, Next, [JStr token]))))"

section \<open>Module imports and the callback route (index.js)\<close>

text \<open>
  What a module assigns to \<open>module.exports\<close>: a function (with the properties the module
  attached to it) or an object literal of functions. A local binding made from it is
  \<open>undefined\<close>, a function or an object.
\<close>

datatype 'f exports = ExportsFunction 'f "(string \<times> 'f) list" | ExportsObject "(string \<times> 'f) list"

datatype 'f binding = Undefined_binding | Function_binding 'f | Object_binding

text \<open>\<open>const x = require(m)\<close>.\<close>

fun require_whole :: "'f exports \<Rightarrow> 'f binding" where
  "require_whole (ExportsFunction f props) = Function_binding f"
| "require_whole (ExportsObject fs) = Object_binding"

text \<open>\<open>const { name } = require(m)\<close>: the property \<open>name\<close> of the exported value.\<close>

fun require_destructured :: "'f exports \<Rightarrow> string \<Rightarrow> 'f binding" where
  "require_destructured (ExportsFunction f props) name =
     (case map_of props name of None \<Rightarrow> Undefined_binding | Some g \<Rightarrow> Function_binding g)"
| "require_destructured (ExportsObject fs) name =
     (case map_of fs name of None \<Rightarrow> Undefined_binding | Some g \<Rightarrow> Function_binding g)"

text \<open>Calling a binding: a value that is not a function throws a \<open>TypeError\<close>.\<close>

fun call_binding :: "('a \<Rightarrow> 'b promise) binding \<Rightarrow> 'a \<Rightarrow> 'b promise" where
  "call_binding (Function_binding f) x = f x"
| "call_binding Undefined_binding x = Rejected ''TypeError: verifyJwt is not a function''"
| "call_binding Object_binding x = Rejected ''TypeError: verifyJwt is not a function''"

text \<open>verifyJwt.js ends with \<open>module.exports = verifyJwt\<close>: the function itself, nothing attached.\<close>

definition verifyJwt_module :: "verifier \<Rightarrow> verifier exports" where
  "verifyJwt_module verifyJwt_fn = ExportsFunction verifyJwt_fn []"

text \<open>index.js, line 4: \<open>const { verifyJwt } = require('./verifyJwt')\<close>.\<close>

definition index_verifyJwt :: "verifier \<Rightarrow> verifier binding" where
  "index_verifyJwt verifyJwt_fn = require_destructured (verifyJwt_module verifyJwt_fn) ''verifyJwt''"

text \<open>authMiddleware.js, line 1: \<open>const verifyJwt = require('../verifyJwt')\<close>.\<close>

definition authMiddleware_verifyJwt :: "verifier \<Rightarrow> verifier binding" where
  "authMiddleware_verifyJwt verifyJwt_fn = require_whole (verifyJwt_module verifyJwt_fn)"

definition internal_server_error :: outcome where
  "internal_server_error = Responded 500 (JObj [(''error'', JStr ''Internal server error'')])"

text \<open>
  The handler of \<open>POST /supabase-callback\<close>. All of it runs inside one \<open>try\<close> whose \<open>catch\<close>
  answers 500. \<open>const { access_token } = req.body\<close> throws on \<open>undefined\<close> and \<open>null\<close>, and
  reads as \<open>undefined\<close> on anything that is not an object with that property. What follows a
  verified payload (validation of its fields, the storage calls, the 200 answer: lines
  186 to 246) is the parameter \<open>registered\<close>.
\<close>

definition supabase_callback :: "verifier binding \<Rightarrow> (jsobject \<Rightarrow> request \<Rightarrow> outcome) \<Rightarrow> request \<Rightarrow> outcome" where
  "supabase_callback verifyJwt_import registered req =
     (if body req = JUndefined \<or> body req = JNull then internal_server_error
      else (let access_token = (case body req of JObj fs \<Rightarrow> get_prop fs ''access_token'' | _ \<Rightarrow> JUndefined)
            in if \<not> truthy access_token
               then Responded 400 (JObj [(''error'', JStr ''Missing access_token'')])
               else (case call_binding verifyJwt_import access_token of
                       Rejected err \<Rightarrow> internal_server_error
                     | Resolved None \<Rightarrow> Responded 401 (JObj [(''error'', JStr ''Invalid token'')])
                     | Resolved (Some payload) \<Rightarrow>
                         (case registered payload req of
                            Thrown err \<Rightarrow> internal_server_error
                          | r \<Rightarrow> r))))"

text \<open>\<open>router.post('/supabase-callback', csrfProtection, handler)\<close>, with the import of line 4.\<close>

definition post_supabase_callback ::
  "(string \<Rightarrow> string option) \<Rightarrow> environment \<Rightarrow> verifier \<Rightarrow> (jsobject \<Rightarrow> request \<Rightarrow> outcome) \<Rightarrow> request \<Rightarrow> outcome" where
  "post_supabase_callback url_host env verifyJwt_fn registered req =
     (case csrfProtection url_host env req of
        Next \<Rightarrow> supabase_callback (index_verifyJwt verifyJwt_fn) registered req
      | r \<Rightarrow> r)"

section \<open>Token verifier (verifyJwt.js)\<close>

text \<open>
  The two packages the module calls, \<open>jsonwebtoken\<close> and \<open>jwks-rsa\<close>, are not part of the
  repository. The module's own code is modelled over them as parameters; below, each is
  also given a model that follows sections 4.1 and 4.2 of the specification.
\<close>

record jwks_options =
  cache :: bool
  cacheMaxEntries :: nat
  cacheMaxAge :: int

text \<open>The options of \<open>jwksClient({...})\<close>, lines 9 to 14; \<open>cacheMaxAge\<close> is in milliseconds.\<close>

definition client_options :: jwks_options where
  "client_options = \<lparr>cache = True, cacheMaxEntries = 5, cacheMaxAge = 600000\<rparr>"

record verify_options =
  algorithms :: "string list"
  issuer :: string
  audience :: string

text \<open>A template literal \<open>`${process.env.X}...`\<close> prints an unset variable as \<open>undefined\<close>.\<close>

definition template_env :: "string option \<Rightarrow> string" where
  "template_env v = (case v of None \<Rightarrow> ''undefined'' | Some s \<Rightarrow> s)"

text \<open>The options handed to \<open>jwt.verify\<close>, lines 44 to 48.\<close>

definition jwt_options :: "environment \<Rightarrow> verify_options" where
  "jwt_options env =
     \<lparr>algorithms = [''RS256''],
      issuer = template_env (SUPABASE_URL env) @ ''/auth/v1'',
      audience = ''authenticated''\<rparr>"

record jwt_header =
  alg :: jsval
  kid :: jsval

datatype key_error = KeyNotFound | KeySourceUnavailable

datatype jwt_error =
    Malformed
  | KeyResolution key_error
  | InvalidAlgorithm
  | InvalidSignature
  | InvalidIssuer
  | InvalidAudience
  | TokenExpired

text \<open>
  \<open>getKey(header, callback)\<close>, lines 19 to 29: it asks the client for the key of
  \<open>header.kid\<close> and hands the callback the error, or the public key of the signing key. The
  client's state \<open>'s\<close> is threaded through.
\<close>

definition getKey :: "(jsval \<Rightarrow> 's \<Rightarrow> (key_error + string) \<times> 's) \<Rightarrow> jwt_header \<Rightarrow> 's \<Rightarrow> (key_error + string) \<times> 's" where
  "getKey getSigningKey_fn header s =
     (case getSigningKey_fn (kid header) s of
        (Inl err, s') \<Rightarrow> (Inl err, s')
      | (Inr signingKey, s') \<Rightarrow> (Inr signingKey, s'))"

text \<open>
  \<open>verifyJwt(token)\<close>, lines 34 to 63. \<open>jwt.verify\<close> is called with a callback, and reports
  every outcome through it: an error \<open>err\<close> or the decoded payload. The callback resolves the
  promise in both cases.
\<close>

definition verifyJwt ::
  "(jsval \<Rightarrow> (jwt_header \<Rightarrow> 's \<Rightarrow> (key_error + string) \<times> 's) \<Rightarrow> verify_options \<Rightarrow> 's \<Rightarrow> (jwt_error + jsobject) \<times> 's)
   \<Rightarrow> (jsval \<Rightarrow> 's \<Rightarrow> (key_error + string) \<times> 's) \<Rightarrow> environment \<Rightarrow> jsval \<Rightarrow> 's \<Rightarrow> jsobject option promise \<times> 's" where
  "verifyJwt jwt_verify_fn getSigningKey_fn env token s =
     (if \<not> truthy token then (Resolved None, s)
      else (case jwt_verify_fn token (getKey getSigningKey_fn) (jwt_options env) s of
              (Inl err, s') \<Rightarrow> (Resolved None, s')
            | (Inr decoded, s') \<Rightarrow> (Resolved (Some decoded), s')))"

subsection \<open>The key set cache of the client\<close>

text \<open>
  A cached signing key: its key identifier, the public key, and when it was fetched
  (milliseconds). The client's state is its cache, most recently fetched first, and the
  number of fetches it has made from the key-publishing endpoint.
\<close>

record signing_key =
  key_id :: jsval
  public_key :: string
  fetched_at :: int

record client_state =
  entries :: "signing_key list"
  fetches :: nat

definition new_client :: client_state where
  "new_client = \<lparr>entries = [], fetches = 0\<rparr>"

text \<open>
  What the outside world is at one lookup: the key set the endpoint publishes (\<open>None\<close> when
  the fetch fails) and the clock, in milliseconds.
\<close>

record key_source =
  published :: "(jsval \<times> string) list option"
  now_ms :: int

text \<open>
  Modelled from the spec: the lookup of the \<open>jwks-rsa\<close> client's cache (section 4.1). A key
  is served from the cache if it is present and its age is below the TTL.
\<close>

definition cached_key :: "jwks_options \<Rightarrow> int \<Rightarrow> jsval \<Rightarrow> signing_key list \<Rightarrow> string option" where
  "cached_key opts now k es =
     (case find (\<lambda>e. key_id e = k) es of
        None \<Rightarrow> None
      | Some e \<Rightarrow> if now - fetched_at e < cacheMaxAge opts then Some (public_key e) else None)"

text \<open>
  Modelled from the spec: insertion into the \<open>jwks-rsa\<close> client's cache (section 4.1). The
  entry of the same key identifier is replaced; beyond the capacity the least recently
  fetched entry, the last one, is evicted.
\<close>

definition insert_key :: "jwks_options \<Rightarrow> signing_key \<Rightarrow> signing_key list \<Rightarrow> signing_key list" where
  "insert_key opts e es = take (cacheMaxEntries opts) (e # filter (\<lambda>e'. key_id e' \<noteq> key_id e) es)"

text \<open>
  Modelled from the spec: \<open>client.getSigningKey(kid, callback)\<close> of \<open>jwks-rsa\<close> (section 4.1,
  \<open>resolve\<close>). On a miss or an expired entry the key set is fetched, the entry for the key
  identifier that is looked up is replaced or inserted, and the lookup is tried once more.
\<close>

definition getSigningKey :: "jwks_options \<Rightarrow> key_source \<Rightarrow> jsval \<Rightarrow> client_state \<Rightarrow> (key_error + string) \<times> client_state" where
  "getSigningKey opts src k st =
     (case cached_key opts (now_ms src) k (entries st) of
        Some pk \<Rightarrow> (Inr pk, st)
      | None \<Rightarrow>
          (case published src of
             None \<Rightarrow> (Inl KeySourceUnavailable, st\<lparr>fetches := fetches st + 1\<rparr>)
           | Some keys \<Rightarrow>
               (let es = (case map_of keys k of
                            None \<Rightarrow> entries st
                          | Some pk \<Rightarrow> insert_key opts \<lparr>key_id = k, public_key = pk, fetched_at = now_ms src\<rparr> (entries st));
                    st' = st\<lparr>entries := es, fetches := fetches st + 1\<rparr>
                in (case cached_key opts (now_ms src) k es of
                      Some pk \<Rightarrow> (Inr pk, st')
                    | None \<Rightarrow> (Inl KeyNotFound, st')))))"

text \<open>A run of lookups on the client, each in its own outside world.\<close>

fun lookups :: "jwks_options \<Rightarrow> (key_source \<times> jsval) list \<Rightarrow> client_state \<Rightarrow> client_state" where
  "lookups opts [] st = st"
| "lookups opts ((src, k) # rest) st = lookups opts rest (snd (getSigningKey opts src k st))"

subsection \<open>Signature and claims validation\<close>

text \<open>
  A token string decodes to a header and a payload, or is malformed; a signature is valid
  or not under a public key. Both are the platform's: \<open>decode\<close> and \<open>signature_valid\<close> are
  parameters.
\<close>

record jwt =
  header :: jwt_header
  payload :: jsobject

record jwt_platform =
  decode :: "string \<Rightarrow> jwt option"
  signature_valid :: "string \<Rightarrow> string \<Rightarrow> bool"

text \<open>
  Modelled from the spec: the expiry check of \<open>jwt.verify\<close> (section 4.2, step 4): the
  current time, in seconds, must be below the expiry claim. A token that carries no expiry
  claim has no expiry to be past.
\<close>

definition expired :: "int \<Rightarrow> jsval \<Rightarrow> bool" where
  "expired now v =
     (case v of
        JUndefined \<Rightarrow> False
      | JNum e \<Rightarrow> \<not> (now div 1000 < e)
      | _ \<Rightarrow> True)"

text \<open>
  Modelled from the spec: \<open>jwt.verify(token, getKey, options, callback)\<close> of \<open>jsonwebtoken\<close>
  (section 4.2, steps 1 to 5). The outcome is what the callback receives.
\<close>

definition jwt_verify ::
  "jwt_platform \<Rightarrow> int \<Rightarrow> jsval \<Rightarrow> (jwt_header \<Rightarrow> 's \<Rightarrow> (key_error + string) \<times> 's) \<Rightarrow> verify_options \<Rightarrow> 's \<Rightarrow> (jwt_error + jsobject) \<times> 's" where
  "jwt_verify pf now token getKey_fn opts s =
     (case token of
        JStr t \<Rightarrow>
          (case decode pf t of
             None \<Rightarrow> (Inl Malformed, s)
           | Some j \<Rightarrow>
               (case getKey_fn (header j) s of
                  (Inl err, s') \<Rightarrow> (Inl (KeyResolution err), s')
                | (Inr pk, s') \<Rightarrow>
                    (if alg (header j) \<notin> JStr ` set (algorithms opts) then (Inl InvalidAlgorithm, s')
                     else if \<not> signature_valid pf pk t then (Inl InvalidSignature, s')
                     else if get_prop (payload j) ''iss'' \<noteq> JStr (issuer opts) then (Inl InvalidIssuer, s')
                     else if get_prop (payload j) ''aud'' \<noteq> JStr (audience opts) then (Inl InvalidAudience, s')
                     else if expired now (get_prop (payload j) ''exp'') then (Inl TokenExpired, s')
                     else (Inr (payload j), s'))))
      | _ \<Rightarrow> (Inl Malformed, s))"

text \<open>The verifier of the running server: the module's code over the two packages.\<close>

definition verify :: "jwt_platform \<Rightarrow> key_source \<Rightarrow> environment \<Rightarrow> jsval \<Rightarrow> client_state \<Rightarrow> jsobject option promise \<times> client_state" where
  "verify pf src env token st =
     verifyJwt (jwt_verify pf (now_ms src)) (getSigningKey client_options src) env token st"

section \<open>Rate limiter (securityMiddleware.js, rateLimitMiddleware)\<close>

record rate_limit_options =
  windowMs :: int
  max_hits :: nat

text \<open>The options handed to \<open>rateLimit({...})\<close>: \<open>windowMs: windowMinutes * 60 * 1000\<close> and
  \<open>max: maxRequests\<close>.\<close>

definition rate_limit_options_of :: "nat \<Rightarrow> int \<Rightarrow> rate_limit_options" where
  "rate_limit_options_of maxRequests windowMinutes =
     \<lparr>windowMs = windowMinutes * 60 * 1000, max_hits = maxRequests\<rparr>"

text \<open>\<open>keyGenerator\<close>: \<open>`${req.ip}-${req.get('User-Agent')}`\<close>.\<close>

definition keyGenerator :: "request \<Rightarrow> string" where
  "keyGenerator req = ip req @ ''-'' @ template_env (req_get req ''User-Agent'')"

text \<open>\<open>req.rateLimit\<close>: the hits counted for the key in its window, and when the window
  resets (milliseconds).\<close>

record rate_limit_entry =
  hits :: nat
  resetTime :: int

type_synonym rate_limit_store = "string \<Rightarrow> rate_limit_entry option"

text \<open>
  Modelled from the spec: the fixed-window counter of \<open>express-rate-limit\<close> (sections 3 and
  4.3). An entry is created on the first request from a key, incremented per request, and
  reset when its window has elapsed.
\<close>

definition increment :: "rate_limit_options \<Rightarrow> int \<Rightarrow> string \<Rightarrow> rate_limit_store \<Rightarrow> rate_limit_entry" where
  "increment opts now key store =
     (case store key of
        None \<Rightarrow> \<lparr>hits = 1, resetTime = now + windowMs opts\<rparr>
      | Some e \<Rightarrow>
          if now < resetTime e then e\<lparr>hits := hits e + 1\<rparr>
          else \<lparr>hits = 1, resetTime = now + windowMs opts\<rparr>)"

text \<open>\<open>Math.ceil(x / 1000)\<close> on a whole number of milliseconds.\<close>

definition ceil_seconds :: "int \<Rightarrow> int" where
  "ceil_seconds ms = - ((- ms) div 1000)"

text \<open>\<open>handler\<close>, lines 23 to 29.\<close>

definition too_many_requests :: "rate_limit_entry \<Rightarrow> outcome" where
  "too_many_requests e = Responded 429 (JObj
     [(''error'', JStr ''Too many requests. Please try again later.''),
      (''retryAfter'', JNum (ceil_seconds (resetTime e)))])"

text \<open>
  The middleware that \<open>rateLimitMiddleware(maxRequests, windowMinutes)\<close> returns, on a request
  that arrives at time \<open>now\<close>: the hit is counted, and the handler answers once the count is
  above \<open>max\<close>.
\<close>

definition rateLimitMiddleware :: "nat \<Rightarrow> int \<Rightarrow> int \<Rightarrow> request \<Rightarrow> rate_limit_store \<Rightarrow> outcome \<times> rate_limit_store" where
  "rateLimitMiddleware maxRequests windowMinutes now req store =
     (let opts = rate_limit_options_of maxRequests windowMinutes;
          key = keyGenerator req;
          e = increment opts now key store;
          store' = store(key \<mapsto> e)
      in (if hits e > max_hits opts then too_many_requests e else Next, store'))"

text \<open>index.js, line 20: \<open>router.use('/supabase-callback', rateLimitMiddleware(10, 60))\<close>.\<close>

definition callback_rate_limit :: "int \<Rightarrow> request \<Rightarrow> rate_limit_store \<Rightarrow> outcome \<times> rate_limit_store" where
  "callback_rate_limit = rateLimitMiddleware 10 60"

text \<open>A run of requests through the limiter, each with its arrival time: the outcomes in
  order.\<close>

fun requests :: "(int \<times> request) list \<Rightarrow> rate_limit_store \<Rightarrow> outcome list" where
  "requests [] store = []"
| "requests ((now, req) # rest) store =
     (case callback_rate_limit now req store of
        (out, store') \<Rightarrow> out # requests rest store')"

section \<open>The callback endpoint as mounted (index.js)\<close>

text \<open>
  A request to \<open>/supabase-callback\<close> first meets the limiter of line 20 and then, if it is a
  POST, the route of line 173; no other route of the router is on that path, so any other
  method falls through. The limiter's store is the state.
\<close>

definition supabase_callback_route ::
  "(string \<Rightarrow> string option) \<Rightarrow> environment \<Rightarrow> verifier \<Rightarrow> (jsobject \<Rightarrow> request \<Rightarrow> outcome) \<Rightarrow>
   int \<Rightarrow> request \<Rightarrow> rate_limit_store \<Rightarrow> outcome \<times> rate_limit_store" where
  "supabase_callback_route url_host env verifyJwt_fn registered now req store =
     (case callback_rate_limit now req store of
        (Next, store') \<Rightarrow>
          (if req_method req = ''POST''
           then post_supabase_callback url_host env verifyJwt_fn registered req
           else Next, store')
      | (r, store') \<Rightarrow> (r, store'))"

section \<open>Example inputs\<close>

text \<open>A stand-in for the URL parser on the examples: the host of an \<open>https\<close> URL.\<close>

definition https_host :: "string \<Rightarrow> string option" where
  "https_host s =
     (if take 8 s = ''https://'' \<and> drop 8 s \<noteq> [] then Some (takeWhile (\<lambda>c. c \<noteq> CHR ''/'') (drop 8 s))
      else None)"

definition app_env :: environment where
  "app_env = \<lparr>SITE_URL = Some ''https://app.example'', SUPABASE_URL = Some ''https://proj.supabase.co''\<rparr>"

definition other_env :: environment where
  "other_env = \<lparr>SITE_URL = Some ''https://app.example'', SUPABASE_URL = Some ''https://other.supabase.co''\<rparr>"

text \<open>One client of the callback endpoint, the same request from a foreign origin, and a
  read without any origin.\<close>

definition probe :: request where
  "probe =
     \<lparr>req_method = ''POST'', path = ''/supabase-callback'', ip = ''203.0.113.7'',
      headers = [(''user-agent'', ''curl/8.5.0''), (''origin'', ''https://app.example'')],
      query = JObj [], body = JObj [(''access_token'', JStr ''aaa.bbb.ccc'')], user = JUndefined\<rparr>"


definition plain_get :: request where
  "plain_get = probe\<lparr>req_method := ''GET'', headers := [], body := JObj []\<rparr>"




definition bearer_get :: request where
  "bearer_get = plain_get\<lparr>headers := [(''authorization'', ''Bearer aaa.bbb.ccc'')]\<rparr>"

definition padded_post :: request where
  "padded_post =
     probe\<lparr>query := JObj [(''next'', JStr ''  /thank-you ''), (''page'', JNum 2)],
           body := JObj [(''access_token'', JStr '' aaa.bbb.ccc''), (''remember'', JBool True),
                         (''tags'', JArr [JStr '' a ''])]\<rparr>"

text \<open>The payload of a token of the provider: it carries no role claim.\<close>

definition alice :: jsobject where
  "alice =
     [(''sub'', JStr ''7f9c2b1e-3d4a-4c5b-8e6f-0a1b2c3d4e5f''),
      (''email'', JStr ''alice@app.example''),
      (''email_verified'', JBool True),
      (''iss'', JStr ''https://proj.supabase.co/auth/v1''),
      (''aud'', JStr ''authenticated''),
      (''exp'', JNum 1700003600)]"

text \<open>
  A platform on which \<open>aaa.bbb.ccc\<close> is that payload under an RS256 header and \<open>xxx.yyy.zzz\<close>
  is the same payload under an HS256 header, and on which every signature is valid.
\<close>

definition token_platform :: jwt_platform where
  "token_platform =
     \<lparr>decode = (\<lambda>t. if t = ''aaa.bbb.ccc''
                      then Some \<lparr>header = \<lparr>alg = JStr ''RS256'', kid = JStr ''key-1''\<rparr>, payload = alice\<rparr>
                      else if t = ''xxx.yyy.zzz''
                      then Some \<lparr>header = \<lparr>alg = JStr ''HS256'', kid = JStr ''key-1''\<rparr>, payload = alice\<rparr>
                      else None),
      signature_valid = (\<lambda>pk t. True)\<rparr>"

text \<open>The payload of a token that carries the role claim \<open>admin\<close>.\<close>

definition root :: jsobject where
  "root =
     [(''sub'', JStr ''0b1c2d3e-4f5a-4b6c-9d7e-8f9a0b1c2d3e''),
      (''email'', JStr ''root@app.example''),
      (''email_verified'', JBool False),
      (''role'', JStr ''admin'')]"

definition keys_at :: "int \<Rightarrow> key_source" where
  "keys_at t = \<lparr>published = Some [(JStr ''key-1'', ''PUBLIC KEY 1'')], now_ms = t\<rparr>"

definition warm_client :: client_state where
  "warm_client =
     \<lparr>entries = [\<lparr>key_id = JStr ''key-1'', public_key = ''PUBLIC KEY 1'', fetched_at = 1700000000000\<rparr>],
      fetches = 1\<rparr>"

text \<open>Six lookups of six different published keys, one second apart.\<close>

definition six_keys :: "(key_source \<times> jsval) list" where
  "six_keys =
     map (\<lambda>n. (\<lparr>published = Some (map (\<lambda>m. (JNum m, ''PUBLIC KEY'')) [1, 2, 3, 4, 5, 6]),
                  now_ms = 1700000000000 + 1000 * n\<rparr>, JNum n))
       [1, 2, 3, 4, 5, 6]"

section \<open>Reading request headers\<close>

lemma toLowerCase_names:
  "toLowerCase ''origin'' = ''origin''" "toLowerCase ''referer'' = ''referer''"
  "toLowerCase ''host'' = ''host''" "toLowerCase ''User-Agent'' = ''user-agent''"
  by code_simp+

lemma req_get_origin: "req_get req ''origin'' = map_of (headers req) ''origin''"
  by (simp add: req_get_def toLowerCase_names)


lemma req_get_user_agent: "req_get req ''User-Agent'' = map_of (headers req) ''user-agent''"
  by (simp add: req_get_def toLowerCase_names)

lemma req_get_referer:
  "req_get req ''referer'' =
     (if map_of (headers req) ''referrer'' \<in> {None, Some []} then map_of (headers req) ''referer''
      else map_of (headers req) ''referrer'')"
  by (auto simp: req_get_def toLowerCase_names split: option.splits)

section \<open>Rate limiter: the window of the callback endpoint\<close>

text \<open>
  C1. The claim: with the window of 60 seconds and the limit of 10 configured for the
  callback endpoint, the 11th request of one (address, agent) pair within the window is
  rejected with 429 and a retry-after value of at most 60 seconds, and a request of the same
  pair after the 60 seconds succeeds.

  The code does not do that. \<open>rateLimitMiddleware(10, 60)\<close> multiplies its second argument by
  \<open>60 * 1000\<close>, so the window is 3600000 ms. On the run below one client sends 11 requests one
  second apart and a 12th request 61 seconds after the first: the first 10 pass, the 11th is
  rejected with \<open>retryAfter = 1700003600\<close> (the reset time in seconds since the epoch, not a
  delay of at most 60), and the 12th, after the 60 seconds, is rejected as well.
\<close>

theorem callback_rate_limit_window_is_an_hour:
  "windowMs (rate_limit_options_of 10 60) = 3600 * 1000 \<and>
   requests (map (\<lambda>t. (t, probe))
     [1700000000000, 1700000001000, 1700000002000, 1700000003000, 1700000004000, 1700000005000,
      1700000006000, 1700000007000, 1700000008000, 1700000009000, 1700000010000, 1700000061000])
     Map.empty
   = replicate 10 Next @
     [Responded 429 (JObj [(''error'', JStr ''Too many requests. Please try again later.''),
                           (''retryAfter'', JNum 1700003600)]),
      Responded 429 (JObj [(''error'', JStr ''Too many requests. Please try again later.''),
                           (''retryAfter'', JNum 1700003600)])]"
  by (simp add: probe_def callback_rate_limit_def rateLimitMiddleware_def rate_limit_options_of_def
      keyGenerator_def increment_def too_many_requests_def ceil_seconds_def req_get_user_agent template_env_def
      numeral_eq_Suc)

section \<open>The callback route and its import of the verifier\<close>

text \<open>The auth middleware imports the same module whole, and its binding is the function.\<close>

lemma authMiddleware_import_is_the_function:
  "authMiddleware_verifyJwt verifyJwt_fn = Function_binding verifyJwt_fn \<and>
   call_binding (authMiddleware_verifyJwt verifyJwt_fn) token = verifyJwt_fn token"
  by (simp add: authMiddleware_verifyJwt_def verifyJwt_module_def)

text \<open>
  C2. Every POST to \<open>/supabase-callback\<close> that passes the limiter and the origin check and
  whose body carries a truthy \<open>access_token\<close> is answered with status 500: the name that
  index.js destructures from the verifier module is \<open>undefined\<close>, the call throws, and the
  handler's \<open>catch\<close> answers. This holds whatever the verifier would have said and whatever
  follows a verified payload, so neither the 401 nor the 200 answer is reached.
\<close>

theorem callback_with_token_answers_500:
  assumes "req_method req = ''POST''"
    and "fst (callback_rate_limit now req store) = Next"
    and "csrfProtection url_host env req = Next"
    and "body req = JObj fs"
    and "truthy (get_prop fs ''access_token'')"
  shows "index_verifyJwt verifyJwt_fn = Undefined_binding \<and>
         fst (supabase_callback_route url_host env verifyJwt_fn registered now req store)
           = Responded 500 (JObj [(''error'', JStr ''Internal server error'')])"
proof -
  obtain store' where rl: "callback_rate_limit now req store = (Next, store')"
    using assms(2) by (cases "callback_rate_limit now req store") simp
  have iv: "index_verifyJwt verifyJwt_fn = Undefined_binding"
    by (simp add: index_verifyJwt_def verifyJwt_module_def)
  have "supabase_callback (index_verifyJwt verifyJwt_fn) registered req = internal_server_error"
    using assms(4,5) by (simp add: iv supabase_callback_def)
  with rl assms(1,3) iv show ?thesis
    by (simp add: supabase_callback_route_def post_supabase_callback_def internal_server_error_def)
qed

theorem callback_with_token_answers_500_witness:
  "req_method probe = ''POST'' \<and>
   fst (callback_rate_limit 1700000000000 probe Map.empty) = Next \<and>
   csrfProtection https_host app_env probe = Next \<and>
   body probe = JObj [(''access_token'', JStr ''aaa.bbb.ccc'')] \<and>
   truthy (get_prop [(''access_token'', JStr ''aaa.bbb.ccc'')] ''access_token'') \<and>
   index_verifyJwt (\<lambda>t. Resolved (Some alice)) = Undefined_binding \<and>
   fst (supabase_callback_route https_host app_env (\<lambda>t. Resolved (Some alice))
          (\<lambda>p r. Responded 200 (JObj [])) 1700000000000 probe Map.empty)
     = Responded 500 (JObj [(''error'', JStr ''Internal server error'')])"
proof -
  have po: "req_method probe = ''POST''"
    by (simp add: probe_def)
  have rl: "fst (callback_rate_limit 1700000000000 probe Map.empty) = Next"
    by (simp add: callback_rate_limit_def rateLimitMiddleware_def rate_limit_options_of_def
        increment_def)
  have csrf: "csrfProtection https_host app_env probe = Next"
    by (simp add: csrfProtection_def allowedHost_def requestHost_def req_get_origin req_get_referer
        https_host_def app_env_def probe_def)
  have bd: "body probe = JObj [(''access_token'', JStr ''aaa.bbb.ccc'')]"
    by (simp add: probe_def)
  have tk: "truthy (get_prop [(''access_token'', JStr ''aaa.bbb.ccc'')] ''access_token'')"
    by (simp add: get_prop_def)
  from callback_with_token_answers_500 [OF po rl csrf bd tk] po rl csrf bd tk show ?thesis
    by blast
qed

section \<open>Token verifier: one failure outcome, no exception\<close>

text \<open>
  C3. Whatever \<open>jwt.verify\<close> reports and whatever the token is, the promise that \<open>verifyJwt\<close>
  returns is never rejected; and for an empty token, and for any error that \<open>jwt.verify\<close>
  reports (malformed token, unresolvable key, bad signature, wrong issuer or audience,
  expired, or any other), it resolves to the same value \<open>null\<close>.
\<close>

theorem verifyJwt_fails_uniformly_and_never_rejects:
  "(\<forall>err. fst (verifyJwt jwt_verify_fn getSigningKey_fn env token s) \<noteq> Rejected err) \<and>
   ((\<not> truthy token \<or> isl (fst (jwt_verify_fn token (getKey getSigningKey_fn) (jwt_options env) s)))
      \<longrightarrow> fst (verifyJwt jwt_verify_fn getSigningKey_fn env token s) = Resolved None)"
  by (auto simp: verifyJwt_def isl_def split: prod.splits sum.splits)

text \<open>The same token, once expired and once under a foreign issuer: two different errors
  of \<open>jwt.verify\<close>, one outcome of \<open>verifyJwt\<close>.\<close>

theorem verifyJwt_fails_uniformly_and_never_rejects_witness:
  "fst (jwt_verify token_platform 1700009999000 (JStr ''aaa.bbb.ccc'')
          (getKey (getSigningKey client_options (keys_at 1700009999000))) (jwt_options app_env) new_client)
     = Inl TokenExpired \<and>
   fst (verifyJwt (jwt_verify token_platform 1700009999000)
          (getSigningKey client_options (keys_at 1700009999000)) app_env (JStr ''aaa.bbb.ccc'') new_client)
     = Resolved None \<and>
   fst (jwt_verify token_platform 1700000000000 (JStr ''aaa.bbb.ccc'')
          (getKey (getSigningKey client_options (keys_at 1700000000000))) (jwt_options other_env) new_client)
     = Inl InvalidIssuer \<and>
   fst (verifyJwt (jwt_verify token_platform 1700000000000)
          (getSigningKey client_options (keys_at 1700000000000)) other_env (JStr ''aaa.bbb.ccc'') new_client)
     = Resolved None"
proof -
  have e1: "fst (jwt_verify token_platform 1700009999000 (JStr ''aaa.bbb.ccc'')
          (getKey (getSigningKey client_options (keys_at 1700009999000))) (jwt_options app_env) new_client)
     = Inl TokenExpired"
    by (simp add: jwt_verify_def token_platform_def getKey_def getSigningKey_def client_options_def
        keys_at_def cached_key_def insert_key_def new_client_def jwt_options_def app_env_def
        template_env_def alice_def get_prop_def expired_def)
  have e2: "fst (jwt_verify token_platform 1700000000000 (JStr ''aaa.bbb.ccc'')
          (getKey (getSigningKey client_options (keys_at 1700000000000))) (jwt_options other_env) new_client)
     = Inl InvalidIssuer"
    by (simp add: jwt_verify_def token_platform_def getKey_def getSigningKey_def client_options_def
        keys_at_def cached_key_def insert_key_def new_client_def jwt_options_def other_env_def
        template_env_def alice_def get_prop_def expired_def)
  from e1 e2
    verifyJwt_fails_uniformly_and_never_rejects [of "jwt_verify token_platform 1700009999000"
      "getSigningKey client_options (keys_at 1700009999000)" app_env "JStr ''aaa.bbb.ccc''" new_client]
    verifyJwt_fails_uniformly_and_never_rejects [of "jwt_verify token_platform 1700000000000"
      "getSigningKey client_options (keys_at 1700000000000)" other_env "JStr ''aaa.bbb.ccc''" new_client]
  show ?thesis by simp
qed

section \<open>Auth middleware\<close>

lemma bearer_split:
  "(take 7 h = ''Bearer '' \<and> drop 7 h \<noteq> []) \<longleftrightarrow> (\<exists>tok. tok \<noteq> [] \<and> h = ''Bearer '' @ tok)"
proof
  assume a: "take 7 h = ''Bearer '' \<and> drop 7 h \<noteq> []"
  have "h = take 7 h @ drop 7 h" by simp
  with a have "h = ''Bearer '' @ drop 7 h" by simp
  with a show "\<exists>tok. tok \<noteq> [] \<and> h = ''Bearer '' @ tok" by blast
next
  assume "\<exists>tok. tok \<noteq> [] \<and> h = ''Bearer '' @ tok"
  then show "take 7 h = ''Bearer '' \<and> drop 7 h \<noteq> []" by auto
qed

lemma authMiddleware_without_bearer:
  assumes "map_of (headers req) ''authorization'' = None \<or>
     (\<exists>h. map_of (headers req) ''authorization'' = Some h \<and> \<not> (\<exists>tok. tok \<noteq> [] \<and> h = ''Bearer '' @ tok))"
  shows "\<exists>msg. authMiddleware v req =
           (req, Responded 401 (JObj [(''error'', JStr msg), (''success'', JBool False)]), [])"
proof (cases "map_of (headers req) ''authorization''")
  case None
  then show ?thesis by (simp add: authMiddleware_def unauthorized_def)
next
  case (Some h)
  with assms have n: "\<not> (\<exists>tok. tok \<noteq> [] \<and> h = ''Bearer '' @ tok)"
    by auto
  have "\<not> (take 7 h = ''Bearer '' \<and> drop 7 h \<noteq> [])"
    using n bearer_split [of h] by blast
  with Some show ?thesis
    by (auto simp: authMiddleware_def unauthorized_def Let_def)
qed

lemma truthy_iff: "truthy r \<longleftrightarrow> r \<notin> {JUndefined, JNull, JBool False, JNum 0, JStr []}"
  by (cases r) auto

lemma role_of_payload:
  "role_or_user (get_prop userData ''role'') =
     (case map_of userData ''role'' of
        None \<Rightarrow> JStr ''user''
      | Some r \<Rightarrow> if r \<in> {JUndefined, JNull, JBool False, JNum 0, JStr []} then JStr ''user'' else r)"
  by (simp add: role_or_user_def get_prop_def truthy_iff split: option.splits)

text \<open>
  C4. For every request and every verifier:
  \<^item> if there is no Authorization header, or it is not \<open>Bearer \<close> followed by a non-empty
    token, the answer is 401 and the verifier has not been called;
  \<^item> if the header is \<open>Bearer \<close> and a non-empty token, the verifier is called once, on that
    token, and
    \<^item> if it resolves to \<open>null\<close>, the answer is 401 and the request is unchanged;
    \<^item> if it resolves to a payload, the request gets the identity context and the chain
      continues. The context is the payload's \<open>sub\<close>, \<open>email\<close> and \<open>email_verified\<close>, and
      a role: \<open>user\<close> when the payload has no role claim (or a falsy one: \<open>null\<close>, \<open>false\<close>,
      \<open>0\<close>, the empty string), and the payload's own role otherwise;
    \<^item> if it rejects, the answer is 500.
\<close>

theorem authMiddleware_outcomes:
  "((map_of (headers req) ''authorization'' = None \<or>
     (\<exists>h. map_of (headers req) ''authorization'' = Some h \<and> \<not> (\<exists>tok. tok \<noteq> [] \<and> h = ''Bearer '' @ tok)))
      \<longrightarrow> (\<exists>msg. authMiddleware v req =
              (req, Responded 401 (JObj [(''error'', JStr msg), (''success'', JBool False)]), []))) \<and>
   (map_of (headers req) ''authorization'' = Some (''Bearer '' @ tok) \<and> tok \<noteq> [] \<longrightarrow>
      (v (JStr tok) = Resolved None \<longrightarrow>
         authMiddleware v req =
           (req, Responded 401 (JObj [(''error'', JStr ''Invalid or expired token''), (''success'', JBool False)]),
            [JStr tok])) \<and>
      (\<forall>userData. v (JStr tok) = Resolved (Some userData) \<longrightarrow>
         authMiddleware v req =
           (req\<lparr>user := JObj [(''id'', get_prop userData ''sub''),
                               (''email'', get_prop userData ''email''),
                               (''email_verified'', get_prop userData ''email_verified''),
                               (''role'',
                                  case map_of userData ''role'' of
                                    None \<Rightarrow> JStr ''user''
                                  | Some r \<Rightarrow>
                                      if r \<in> {JUndefined, JNull, JBool False, JNum 0, JStr []}
                                      then JStr ''user'' else r)]\<rparr>,
            Next, [JStr tok])) \<and>
      (\<forall>err. v (JStr tok) = Rejected err \<longrightarrow>
         authMiddleware v req =
           (req, Responded 500 (JObj [(''error'', JStr ''Authentication failed''), (''success'', JBool False)]),
            [JStr tok])))"
  apply (intro conjI impI allI)
  subgoal using authMiddleware_without_bearer by blast
  subgoal by (simp add: authMiddleware_def unauthorized_def)
  subgoal by (simp add: authMiddleware_def user_context_def role_of_payload)
  subgoal by (simp add: authMiddleware_def authentication_failed_def)
  done

text \<open>No header; a token the verifier refuses; a token without a role claim; a token with
  the role claim \<open>admin\<close>; a verifier that fails.\<close>

theorem authMiddleware_outcomes_witness:
  "(\<exists>msg. authMiddleware (\<lambda>t. Resolved (Some alice)) plain_get =
      (plain_get, Responded 401 (JObj [(''error'', JStr msg), (''success'', JBool False)]), [])) \<and>
   authMiddleware (\<lambda>t. Resolved None) bearer_get =
      (bearer_get, Responded 401 (JObj [(''error'', JStr ''Invalid or expired token''), (''success'', JBool False)]),
       [JStr ''aaa.bbb.ccc'']) \<and>
   authMiddleware (\<lambda>t. Resolved (Some alice)) bearer_get =
      (bearer_get\<lparr>user := JObj [(''id'', JStr ''7f9c2b1e-3d4a-4c5b-8e6f-0a1b2c3d4e5f''),
                                 (''email'', JStr ''alice@app.example''),
                                 (''email_verified'', JBool True),
                                 (''role'', JStr ''user'')]\<rparr>,
       Next, [JStr ''aaa.bbb.ccc'']) \<and>
   authMiddleware (\<lambda>t. Resolved (Some root)) bearer_get =
      (bearer_get\<lparr>user := JObj [(''id'', JStr ''0b1c2d3e-4f5a-4b6c-9d7e-8f9a0b1c2d3e''),
                                 (''email'', JStr ''root@app.example''),
                                 (''email_verified'', JBool False),
                                 (''role'', JStr ''admin'')]\<rparr>,
       Next, [JStr ''aaa.bbb.ccc'']) \<and>
   authMiddleware (\<lambda>t. Rejected ''fault'') bearer_get =
      (bearer_get, Responded 500 (JObj [(''error'', JStr ''Authentication failed''), (''success'', JBool False)]),
       [JStr ''aaa.bbb.ccc''])"
proof -
  have h0: "map_of (headers plain_get) ''authorization'' = None"
    by (simp add: plain_get_def probe_def)
  have h1: "map_of (headers bearer_get) ''authorization'' = Some (''Bearer '' @ ''aaa.bbb.ccc'')"
    by (simp add: bearer_get_def plain_get_def probe_def)
  have a: "map_of alice ''role'' = None" "get_prop alice ''sub'' = JStr ''7f9c2b1e-3d4a-4c5b-8e6f-0a1b2c3d4e5f''"
    "get_prop alice ''email'' = JStr ''alice@app.example''" "get_prop alice ''email_verified'' = JBool True"
    by (simp_all add: alice_def get_prop_def)
  have r: "map_of root ''role'' = Some (JStr ''admin'')" "get_prop root ''sub'' = JStr ''0b1c2d3e-4f5a-4b6c-9d7e-8f9a0b1c2d3e''"
    "get_prop root ''email'' = JStr ''root@app.example''" "get_prop root ''email_verified'' = JBool False"
    by (simp_all add: root_def get_prop_def)
  from h0 authMiddleware_outcomes [where req = plain_get and v = "\<lambda>t. Resolved (Some alice)"]
  have 1: "\<exists>msg. authMiddleware (\<lambda>t. Resolved (Some alice)) plain_get =
      (plain_get, Responded 401 (JObj [(''error'', JStr msg), (''success'', JBool False)]), [])"
    by blast
  from h1 authMiddleware_outcomes [where req = bearer_get and tok = "''aaa.bbb.ccc''" and v = "\<lambda>t. Resolved None"]
  have 2: "authMiddleware (\<lambda>t. Resolved None) bearer_get =
      (bearer_get, Responded 401 (JObj [(''error'', JStr ''Invalid or expired token''), (''success'', JBool False)]),
       [JStr ''aaa.bbb.ccc''])"
    by simp
  from h1 a authMiddleware_outcomes [where req = bearer_get and tok = "''aaa.bbb.ccc''" and v = "\<lambda>t. Resolved (Some alice)"]
  have 3: "authMiddleware (\<lambda>t. Resolved (Some alice)) bearer_get =
      (bearer_get\<lparr>user := JObj [(''id'', JStr ''7f9c2b1e-3d4a-4c5b-8e6f-0a1b2c3d4e5f''),
                                 (''email'', JStr ''alice@app.example''),
                                 (''email_verified'', JBool True),
                                 (''role'', JStr ''user'')]\<rparr>,
       Next, [JStr ''aaa.bbb.ccc''])"
    by simp
  from h1 r authMiddleware_outcomes [where req = bearer_get and tok = "''aaa.bbb.ccc''" and v = "\<lambda>t. Resolved (Some root)"]
  have 4: "authMiddleware (\<lambda>t. Resolved (Some root)) bearer_get =
      (bearer_get\<lparr>user := JObj [(''id'', JStr ''0b1c2d3e-4f5a-4b6c-9d7e-8f9a0b1c2d3e''),
                                 (''email'', JStr ''root@app.example''),
                                 (''email_verified'', JBool False),
                                 (''role'', JStr ''admin'')]\<rparr>,
       Next, [JStr ''aaa.bbb.ccc''])"
    by simp
  from h1 authMiddleware_outcomes [where req = bearer_get and tok = "''aaa.bbb.ccc''" and v = "\<lambda>t. Rejected ''fault''"]
  have 5: "authMiddleware (\<lambda>t. Rejected ''fault'') bearer_get =
      (bearer_get, Responded 500 (JObj [(''error'', JStr ''Authentication failed''), (''success'', JBool False)]),
       [JStr ''aaa.bbb.ccc''])"
    by simp
  from 1 2 3 4 5 show ?thesis by blast
qed

section \<open>Origin check\<close>






section \<open>Token verifier: claims validation\<close>

text \<open>
  C6. A token whose issuer claim is not the configured issuer URI
  (\<open>`${process.env.SUPABASE_URL}/auth/v1`\<close>), or whose audience claim is not \<open>authenticated\<close>,
  or whose expiry claim is not after the current time, is not verified: the verifier
  resolves to \<open>null\<close>. Nothing is assumed of the signature or of the key, so this holds for a
  valid signature as well.
\<close>

theorem verify_rejects_wrong_issuer_audience_or_expired:
  assumes "decode pf t = Some j"
    and "get_prop (payload j) ''iss'' \<noteq> JStr (template_env (SUPABASE_URL env) @ ''/auth/v1'') \<or>
         get_prop (payload j) ''aud'' \<noteq> JStr ''authenticated'' \<or>
         (\<exists>e. get_prop (payload j) ''exp'' = JNum e \<and> e \<le> now_ms src div 1000)"
  shows "fst (verify pf src env (JStr t) st) = Resolved None"
  using assms
  by (auto simp: verify_def verifyJwt_def jwt_verify_def jwt_options_def expired_def
      split: prod.splits sum.splits)

text \<open>The token of the examples, with a valid signature and a published key: under a
  server configured for another issuer, and an hour after its expiry.\<close>

theorem verify_rejects_wrong_issuer_audience_or_expired_witness:
  "signature_valid token_platform ''PUBLIC KEY 1'' ''aaa.bbb.ccc'' \<and>
   fst (verify token_platform (keys_at 1700000000000) app_env (JStr ''aaa.bbb.ccc'') new_client)
     = Resolved (Some alice) \<and>
   fst (verify token_platform (keys_at 1700000000000) other_env (JStr ''aaa.bbb.ccc'') new_client)
     = Resolved None \<and>
   fst (verify token_platform (keys_at 1700007200000) app_env (JStr ''aaa.bbb.ccc'') new_client)
     = Resolved None"
proof -
  have d: "decode token_platform ''aaa.bbb.ccc''
             = Some \<lparr>header = \<lparr>alg = JStr ''RS256'', kid = JStr ''key-1''\<rparr>, payload = alice\<rparr>"
    by (simp add: token_platform_def)
  have sv: "signature_valid token_platform ''PUBLIC KEY 1'' ''aaa.bbb.ccc''"
    by (simp add: token_platform_def)
  have ok: "fst (verify token_platform (keys_at 1700000000000) app_env (JStr ''aaa.bbb.ccc'') new_client)
     = Resolved (Some alice)"
    by (simp add: verify_def verifyJwt_def jwt_verify_def token_platform_def getKey_def
        getSigningKey_def client_options_def keys_at_def cached_key_def insert_key_def
        new_client_def jwt_options_def app_env_def template_env_def alice_def get_prop_def
        expired_def)
  have iss: "get_prop alice ''iss'' \<noteq> JStr (template_env (SUPABASE_URL other_env) @ ''/auth/v1'')"
    by (simp add: alice_def get_prop_def other_env_def template_env_def)
  have ex: "get_prop alice ''exp'' = JNum 1700003600 \<and> 1700003600 \<le> now_ms (keys_at 1700007200000) div 1000"
    by (simp add: alice_def get_prop_def keys_at_def)
  from d iss
    verify_rejects_wrong_issuer_audience_or_expired [where pf = token_platform and t = "''aaa.bbb.ccc''"
      and env = other_env and src = "keys_at 1700000000000" and st = new_client]
  have 1: "fst (verify token_platform (keys_at 1700000000000) other_env (JStr ''aaa.bbb.ccc'') new_client)
     = Resolved None"
    by simp
  from d ex
    verify_rejects_wrong_issuer_audience_or_expired [where pf = token_platform and t = "''aaa.bbb.ccc''"
      and env = app_env and src = "keys_at 1700007200000" and st = new_client]
  have 2: "fst (verify token_platform (keys_at 1700007200000) app_env (JStr ''aaa.bbb.ccc'') new_client)
     = Resolved None"
    by simp
  from sv ok 1 2 show ?thesis by blast
qed

text \<open>
  C7. The only algorithm in the allow-list handed to \<open>jwt.verify\<close> is RS256, and a token
  whose header declares anything else (HS256, \<open>none\<close>, or no algorithm at all) is not
  verified: the verifier resolves to \<open>null\<close>.
\<close>

theorem verify_rejects_algorithms_other_than_RS256:
  assumes "decode pf t = Some j"
    and "alg (header j) \<noteq> JStr ''RS256''"
  shows "algorithms (jwt_options env) = [''RS256''] \<and>
         fst (verify pf src env (JStr t) st) = Resolved None"
  using assms
  by (auto simp: verify_def verifyJwt_def jwt_verify_def jwt_options_def
      split: prod.splits sum.splits)

theorem verify_rejects_algorithms_other_than_RS256_witness:
  "decode token_platform ''xxx.yyy.zzz''
     = Some \<lparr>header = \<lparr>alg = JStr ''HS256'', kid = JStr ''key-1''\<rparr>, payload = alice\<rparr> \<and>
   algorithms (jwt_options app_env) = [''RS256''] \<and>
   fst (verify token_platform (keys_at 1700000000000) app_env (JStr ''xxx.yyy.zzz'') new_client)
     = Resolved None"
proof -
  have d: "decode token_platform ''xxx.yyy.zzz''
     = Some \<lparr>header = \<lparr>alg = JStr ''HS256'', kid = JStr ''key-1''\<rparr>, payload = alice\<rparr>"
    by (simp add: token_platform_def)
  from d
    verify_rejects_algorithms_other_than_RS256 [where pf = token_platform and t = "''xxx.yyy.zzz''"
      and env = app_env and src = "keys_at 1700000000000" and st = new_client]
  show ?thesis by simp
qed

section \<open>Input sanitization\<close>

lemma rev_dropWhile_takeWhile:
  "xs = rev (dropWhile P (rev xs)) @ rev (takeWhile P (rev xs))"
  by (metis rev_append rev_rev_ident takeWhile_dropWhile_id)

lemma trim_decomposition:
  "\<exists>pre post. s = pre @ trim s @ post \<and> list_all js_whitespace pre \<and> list_all js_whitespace post"
proof -
  let ?m = "dropWhile js_whitespace s"
  let ?pre = "takeWhile js_whitespace s"
  let ?post = "rev (takeWhile js_whitespace (rev ?m))"
  have m: "?m = trim s @ ?post"
    unfolding trim_def by (rule rev_dropWhile_takeWhile)
  have "s = ?pre @ ?m" by simp
  with m have "s = ?pre @ trim s @ ?post" by simp
  moreover have "list_all js_whitespace ?pre"
    by (auto simp: list_all_iff dest: set_takeWhileD)
  moreover have "list_all js_whitespace ?post"
    by (auto simp: list_all_iff dest: set_takeWhileD)
  ultimately show ?thesis by blast
qed

lemma trim_ends:
  assumes "trim s \<noteq> []"
  shows "\<not> js_whitespace (hd (trim s)) \<and> \<not> js_whitespace (last (trim s))"
proof -
  let ?m = "dropWhile js_whitespace s"
  let ?r = "dropWhile js_whitespace (rev ?m)"
  from assms have r: "?r \<noteq> []" by (simp add: trim_def)
  then have "\<not> js_whitespace (hd ?r)" by (rule hd_dropWhile)
  moreover have "last (trim s) = hd ?r"
    using r by (simp add: trim_def last_rev)
  ultimately have l: "\<not> js_whitespace (last (trim s))" by simp
  from r have m: "?m \<noteq> []"
    by (metis dropWhile.simps(1) rev.simps(1))
  then have h: "\<not> js_whitespace (hd ?m)" by (rule hd_dropWhile)
  have "?m = trim s @ rev (takeWhile js_whitespace (rev ?m))"
    unfolding trim_def by (rule rev_dropWhile_takeWhile)
  then have "hd ?m = hd (trim s @ rev (takeWhile js_whitespace (rev ?m)))" by (rule arg_cong)
  with assms have "hd ?m = hd (trim s)" by simp
  with h l show ?thesis by simp
qed

lemma trim_if_string_case: "trim_if_string v = (case v of JStr s \<Rightarrow> JStr (trim s) | w \<Rightarrow> w)"
  by (cases v) (simp_all add: trim_if_string_def)

lemma trim_fields_keys: "map fst (trim_fields fs) = map fst fs"
  by (induction fs rule: trim_fields.induct) simp_all

lemma trim_fields_nth:
  "i < length fs \<Longrightarrow> snd (trim_fields fs ! i) = trim_if_string (snd (fs ! i))"
proof (induction fs arbitrary: i rule: trim_fields.induct)
  case 1
  then show ?case by simp
next
  case (2 key v fs)
  then show ?case by (cases i) simp_all
qed

lemma trim_elements_length: "length (trim_elements vs) = length vs"
  by (induction vs) simp_all

lemma trim_elements_nth:
  "i < length vs \<Longrightarrow> trim_elements vs ! i = trim_if_string (vs ! i)"
proof (induction vs arbitrary: i)
  case Nil
  then show ?case by simp
next
  case (Cons v vs)
  then show ?case by (cases i) simp_all
qed

lemma sanitizeInput_query: "query (fst (sanitizeInput req)) = for_in_trim (query req)"
  by (cases "query req") (simp_all add: sanitizeInput_def Let_def)

lemma sanitizeInput_body: "body (fst (sanitizeInput req)) = for_in_trim (body req)"
  by (cases "body req") (simp_all add: sanitizeInput_def Let_def)

lemma for_in_trim_effect:
  "(\<forall>fs. v = JObj fs \<longrightarrow>
      (\<exists>fs'. for_in_trim v = JObj fs' \<and> map fst fs' = map fst fs \<and>
         (\<forall>i < length fs. snd (fs' ! i) = (case snd (fs ! i) of JStr s \<Rightarrow> JStr (trim s) | w \<Rightarrow> w)))) \<and>
   (\<forall>vs. v = JArr vs \<longrightarrow>
      (\<exists>vs'. for_in_trim v = JArr vs' \<and> length vs' = length vs \<and>
         (\<forall>i < length vs. vs' ! i = (case vs ! i of JStr s \<Rightarrow> JStr (trim s) | w \<Rightarrow> w)))) \<and>
   ((\<forall>fs. v \<noteq> JObj fs) \<and> (\<forall>vs. v \<noteq> JArr vs) \<longrightarrow> for_in_trim v = v)"
  by (cases v)
    (simp_all add: trim_fields_keys trim_fields_nth trim_elements_length trim_elements_nth
      trim_if_string_case)

text \<open>
  C8. \<open>sanitizeInput\<close> always calls \<open>next()\<close>, and changes nothing of the request but
  \<open>req.query\<close> and \<open>req.body\<close>. Each of the two, when it is an object, keeps its parameters
  and their order; a parameter whose value is a string \<open>s\<close> gets the value \<open>trim s\<close>, and
  every other parameter keeps its value. (A body that is an array is treated likewise,
  element by element; any other value is left as it is.) And \<open>trim s\<close> is \<open>s\<close> without a
  leading and a trailing run of white space: it neither starts nor ends with white space.
\<close>

theorem sanitizeInput_trims_string_parameters:
  "snd (sanitizeInput req) = Next \<and>
   (fst (sanitizeInput req))\<lparr>query := query req, body := body req\<rparr> = req \<and>
   (\<forall>v v'. v = query req \<and> v' = query (fst (sanitizeInput req)) \<or>
            v = body req \<and> v' = body (fst (sanitizeInput req)) \<longrightarrow>
      (\<forall>fs. v = JObj fs \<longrightarrow>
         (\<exists>fs'. v' = JObj fs' \<and> map fst fs' = map fst fs \<and>
            (\<forall>i < length fs. snd (fs' ! i) = (case snd (fs ! i) of JStr s \<Rightarrow> JStr (trim s) | w \<Rightarrow> w)))) \<and>
      (\<forall>vs. v = JArr vs \<longrightarrow>
         (\<exists>vs'. v' = JArr vs' \<and> length vs' = length vs \<and>
            (\<forall>i < length vs. vs' ! i = (case vs ! i of JStr s \<Rightarrow> JStr (trim s) | w \<Rightarrow> w)))) \<and>
      ((\<forall>fs. v \<noteq> JObj fs) \<and> (\<forall>vs. v \<noteq> JArr vs) \<longrightarrow> v' = v)) \<and>
   (\<forall>s. \<exists>pre post. s = pre @ trim s @ post \<and> list_all js_whitespace pre \<and> list_all js_whitespace post \<and>
          (trim s \<noteq> [] \<longrightarrow> \<not> js_whitespace (hd (trim s)) \<and> \<not> js_whitespace (last (trim s))))"
proof -
  have 1: "snd (sanitizeInput req) = Next"
    by (simp add: sanitizeInput_def Let_def)
  have 2: "(fst (sanitizeInput req))\<lparr>query := query req, body := body req\<rparr> = req"
    by (simp add: sanitizeInput_def Let_def)
  have 3: "\<forall>v v'. v = query req \<and> v' = query (fst (sanitizeInput req)) \<or>
            v = body req \<and> v' = body (fst (sanitizeInput req)) \<longrightarrow>
      (\<forall>fs. v = JObj fs \<longrightarrow>
         (\<exists>fs'. v' = JObj fs' \<and> map fst fs' = map fst fs \<and>
            (\<forall>i < length fs. snd (fs' ! i) = (case snd (fs ! i) of JStr s \<Rightarrow> JStr (trim s) | w \<Rightarrow> w)))) \<and>
      (\<forall>vs. v = JArr vs \<longrightarrow>
         (\<exists>vs'. v' = JArr vs' \<and> length vs' = length vs \<and>
            (\<forall>i < length vs. vs' ! i = (case vs ! i of JStr s \<Rightarrow> JStr (trim s) | w \<Rightarrow> w)))) \<and>
      ((\<forall>fs. v \<noteq> JObj fs) \<and> (\<forall>vs. v \<noteq> JArr vs) \<longrightarrow> v' = v)"
  proof (intro allI, rule impI)
    fix v v'
    assume "v = query req \<and> v' = query (fst (sanitizeInput req)) \<or>
            v = body req \<and> v' = body (fst (sanitizeInput req))"
    then have v': "v' = for_in_trim v"
      using sanitizeInput_query [of req] sanitizeInput_body [of req] by auto
    show "(\<forall>fs. v = JObj fs \<longrightarrow>
         (\<exists>fs'. v' = JObj fs' \<and> map fst fs' = map fst fs \<and>
            (\<forall>i < length fs. snd (fs' ! i) = (case snd (fs ! i) of JStr s \<Rightarrow> JStr (trim s) | w \<Rightarrow> w)))) \<and>
      (\<forall>vs. v = JArr vs \<longrightarrow>
         (\<exists>vs'. v' = JArr vs' \<and> length vs' = length vs \<and>
            (\<forall>i < length vs. vs' ! i = (case vs ! i of JStr s \<Rightarrow> JStr (trim s) | w \<Rightarrow> w)))) \<and>
      ((\<forall>fs. v \<noteq> JObj fs) \<and> (\<forall>vs. v \<noteq> JArr vs) \<longrightarrow> v' = v)"
      unfolding v' by (rule for_in_trim_effect)
  qed
  have 4: "\<forall>s. \<exists>pre post. s = pre @ trim s @ post \<and> list_all js_whitespace pre \<and> list_all js_whitespace post \<and>
          (trim s \<noteq> [] \<longrightarrow> \<not> js_whitespace (hd (trim s)) \<and> \<not> js_whitespace (last (trim s)))"
  proof
    fix s
    from trim_decomposition [of s] trim_ends [of s]
    show "\<exists>pre post. s = pre @ trim s @ post \<and> list_all js_whitespace pre \<and> list_all js_whitespace post \<and>
          (trim s \<noteq> [] \<longrightarrow> \<not> js_whitespace (hd (trim s)) \<and> \<not> js_whitespace (last (trim s)))"
      by blast
  qed
  show ?thesis
    by (rule conjI [OF 1 conjI [OF 2 conjI [OF 3 4]]])
qed

theorem sanitizeInput_trims_string_parameters_witness:
  "snd (sanitizeInput padded_post) = Next \<and>
   (\<exists>fs'. query (fst (sanitizeInput padded_post)) = JObj fs' \<and> map fst fs' = [''next'', ''page''] \<and>
      snd (fs' ! 0) = JStr ''/thank-you'' \<and> snd (fs' ! 1) = JNum 2) \<and>
   body (fst (sanitizeInput padded_post)) =
     JObj [(''access_token'', JStr ''aaa.bbb.ccc''), (''remember'', JBool True), (''tags'', JArr [JStr '' a ''])]"
proof -
  note t = sanitizeInput_trims_string_parameters [of padded_post]
  from t have 1: "snd (sanitizeInput padded_post) = Next"
    by (rule conjunct1)
  have q: "query padded_post = JObj [(''next'', JStr ''  /thank-you ''), (''page'', JNum 2)]"
    by (simp add: padded_post_def)
  have tr: "trim ''  /thank-you '' = ''/thank-you''"
    by code_simp
  have sel: "query padded_post = query padded_post \<and>
             query (fst (sanitizeInput padded_post)) = query (fst (sanitizeInput padded_post))"
    by simp
  note objs = t [THEN conjunct2, THEN conjunct2, THEN conjunct1, THEN spec, THEN spec, THEN mp,
      OF disjI1, OF sel, THEN conjunct1, THEN spec, THEN mp, OF q]
  then obtain fs' where f: "query (fst (sanitizeInput padded_post)) = JObj fs'"
    "map fst fs' = map fst [(''next'', JStr ''  /thank-you ''), (''page'', JNum 2)]"
    "\<forall>i < length [(''next'', JStr ''  /thank-you ''), (''page'', JNum 2)].
        snd (fs' ! i) = (case snd ([(''next'', JStr ''  /thank-you ''), (''page'', JNum 2)] ! i) of
                           JStr s \<Rightarrow> JStr (trim s) | w \<Rightarrow> w)"
    by (elim exE conjE)
  from f(3) have "snd (fs' ! 0) = JStr (trim ''  /thank-you '')"
    by (simp add: nth_Cons')
  with tr have n0: "snd (fs' ! 0) = JStr ''/thank-you''"
    by (simp only:)
  from f(3) have n1: "snd (fs' ! 1) = JNum 2"
    by (simp add: nth_Cons')
  from f(2) have ks: "map fst fs' = [''next'', ''page'']"
    by simp
  from f(1) ks n0 n1 have 2: "\<exists>fs'. query (fst (sanitizeInput padded_post)) = JObj fs' \<and>
      map fst fs' = [''next'', ''page''] \<and> snd (fs' ! 0) = JStr ''/thank-you'' \<and> snd (fs' ! 1) = JNum 2"
    by (intro exI [of _ fs'] conjI)
  have 3: "body (fst (sanitizeInput padded_post)) =
     JObj [(''access_token'', JStr ''aaa.bbb.ccc''), (''remember'', JBool True), (''tags'', JArr [JStr '' a ''])]"
    by code_simp
  show ?thesis
    by (rule conjI [OF 1 conjI [OF 2 3]])
qed

section \<open>Key set cache and repeated verification\<close>

lemma getSigningKey_cached_after:
  assumes "getSigningKey opts src k st = (Inr pk, st')"
  shows "cached_key opts (now_ms src) k (entries st') = Some pk"
  using assms
  by (auto simp: getSigningKey_def Let_def split: option.splits)

lemma getSigningKey_again:
  assumes "getSigningKey opts src k st = (Inr pk, st')"
  shows "getSigningKey opts src k st' = (Inr pk, st')"
  using getSigningKey_cached_after [OF assms] by (simp add: getSigningKey_def)

lemma getKey_again:
  assumes "getKey (getSigningKey opts src) h st = (Inr pk, st')"
  shows "getKey (getSigningKey opts src) h st' = (Inr pk, st')"
proof -
  from assms have "getSigningKey opts src (kid h) st = (Inr pk, st')"
    by (auto simp: getKey_def split: prod.splits sum.splits)
  from getSigningKey_again [OF this] show ?thesis
    by (simp add: getKey_def)
qed

lemma jwt_verify_again:
  assumes "jwt_verify pf now token (getKey (getSigningKey opts src)) vo st = (Inr claims, st')"
  shows "jwt_verify pf now token (getKey (getSigningKey opts src)) vo st' = (Inr claims, st')"
proof -
  from assms obtain t j pk where t: "token = JStr t" and d: "decode pf t = Some j"
    and g: "getKey (getSigningKey opts src) (header j) st = (Inr pk, st')"
    by (auto simp: jwt_verify_def split: jsval.splits option.splits prod.splits sum.splits if_splits)
  from assms t d g getKey_again [OF g] show ?thesis
    by (simp add: jwt_verify_def)
qed

text \<open>
  C9. With the published key set and the clock held fixed, a token that is verified is
  verified again when it is presented a second time, to the same claims; the second
  verification leaves the key cache as the first one left it.
\<close>

theorem verify_twice_same_claims:
  assumes "verify pf src env token st = (Resolved (Some claims), st')"
  shows "verify pf src env token st' = (Resolved (Some claims), st')"
proof -
  from assms have tr: "truthy token"
    and v: "jwt_verify pf (now_ms src) token (getKey (getSigningKey client_options src)) (jwt_options env) st
              = (Inr claims, st')"
    by (auto simp: verify_def verifyJwt_def split: if_splits prod.splits sum.splits)
  from tr jwt_verify_again [OF v] show ?thesis
    by (simp add: verify_def verifyJwt_def)
qed

theorem verify_twice_same_claims_witness:
  "verify token_platform (keys_at 1700000000000) app_env (JStr ''aaa.bbb.ccc'') new_client
     = (Resolved (Some alice), warm_client) \<and>
   verify token_platform (keys_at 1700000000000) app_env (JStr ''aaa.bbb.ccc'') warm_client
     = (Resolved (Some alice), warm_client)"
proof -
  have first: "verify token_platform (keys_at 1700000000000) app_env (JStr ''aaa.bbb.ccc'') new_client
     = (Resolved (Some alice), warm_client)"
    by (simp add: verify_def verifyJwt_def jwt_verify_def token_platform_def getKey_def
        getSigningKey_def client_options_def keys_at_def cached_key_def insert_key_def
        new_client_def warm_client_def jwt_options_def app_env_def template_env_def alice_def
        get_prop_def expired_def)
  from first verify_twice_same_claims [OF first] show ?thesis
    by (rule conjI)
qed

lemma served_from_cache:
  assumes "cached_key opts now k es = Some pk"
  shows "\<exists>e \<in> set es. key_id e = k \<and> public_key e = pk \<and> now - fetched_at e < cacheMaxAge opts"
  using assms
  by (auto simp: cached_key_def find_Some_iff split: option.splits if_splits)

lemma getSigningKey_without_fetch:
  assumes "getSigningKey opts src k st = (Inr pk, st')" and "fetches st' = fetches st"
  shows "cached_key opts (now_ms src) k (entries st) = Some pk"
  using assms
  by (auto simp: getSigningKey_def Let_def split: option.splits)

lemma insert_key_length: "length (insert_key opts e es) \<le> cacheMaxEntries opts"
  by (simp add: insert_key_def)

lemma getSigningKey_capacity:
  assumes "length (entries st) \<le> cacheMaxEntries opts"
  shows "length (entries (snd (getSigningKey opts src k st))) \<le> cacheMaxEntries opts"
  using assms
  by (auto simp: getSigningKey_def Let_def insert_key_length split: option.splits)

lemma lookups_capacity:
  "length (entries st) \<le> cacheMaxEntries opts \<Longrightarrow>
   length (entries (lookups opts rs st)) \<le> cacheMaxEntries opts"
proof (induction rs arbitrary: st)
  case Nil
  then show ?case by simp
next
  case (Cons r rs)
  obtain src k where r: "r = (src, k)" by (cases r)
  from Cons.prems have "length (entries (snd (getSigningKey opts src k st))) \<le> cacheMaxEntries opts"
    by (rule getSigningKey_capacity)
  from Cons.IH [OF this] r show ?case by simp
qed

text \<open>
  C10. The client is created with a TTL of 600000 ms, that is 600 seconds, and a capacity
  of 5. A lookup that returns a key without a fetch returns a cached key whose age is below
  600 seconds; and after any run of lookups on a new client, whatever is published and
  whenever, the cache holds at most 5 keys.
\<close>

theorem key_cache_ttl_and_capacity:
  "cacheMaxAge client_options = 600 * 1000 \<and> cacheMaxEntries client_options = 5 \<and>
   (getSigningKey client_options src k st = (Inr pk, st') \<and> fetches st' = fetches st \<longrightarrow>
      (\<exists>e \<in> set (entries st). key_id e = k \<and> public_key e = pk \<and> now_ms src - fetched_at e < 600 * 1000)) \<and>
   length (entries (lookups client_options rs new_client)) \<le> 5"
proof (intro conjI impI)
  show "cacheMaxAge client_options = 600 * 1000" by (simp add: client_options_def)
  show "cacheMaxEntries client_options = 5" by (simp add: client_options_def)
  have "length (entries new_client) \<le> cacheMaxEntries client_options"
    by (simp add: new_client_def)
  from lookups_capacity [OF this] show "length (entries (lookups client_options rs new_client)) \<le> 5"
    by (simp add: client_options_def)
next
  assume a: "getSigningKey client_options src k st = (Inr pk, st') \<and> fetches st' = fetches st"
  then have "cached_key client_options (now_ms src) k (entries st) = Some pk"
    using getSigningKey_without_fetch by blast
  from served_from_cache [OF this]
  show "\<exists>e \<in> set (entries st). key_id e = k \<and> public_key e = pk \<and> now_ms src - fetched_at e < 600 * 1000"
    by (simp add: client_options_def)
qed

text \<open>A key fetched five minutes ago is served from the cache; eleven minutes after the
  fetch it is fetched again; and six lookups of six different keys leave five in the cache.\<close>

theorem key_cache_ttl_and_capacity_witness:
  "getSigningKey client_options (keys_at 1700000300000) (JStr ''key-1'') warm_client
     = (Inr ''PUBLIC KEY 1'', warm_client) \<and>
   (\<exists>e \<in> set (entries warm_client). key_id e = JStr ''key-1'' \<and> public_key e = ''PUBLIC KEY 1'' \<and>
      now_ms (keys_at 1700000300000) - fetched_at e < 600 * 1000) \<and>
   fetches (snd (getSigningKey client_options (keys_at 1700000660000) (JStr ''key-1'') warm_client)) = 2 \<and>
   length (entries (lookups client_options six_keys new_client)) \<le> 5 \<and>
   map key_id (entries (lookups client_options six_keys new_client)) = [JNum 6, JNum 5, JNum 4, JNum 3, JNum 2]"
proof -
  have g: "getSigningKey client_options (keys_at 1700000300000) (JStr ''key-1'') warm_client
     = (Inr ''PUBLIC KEY 1'', warm_client)"
    by (simp add: getSigningKey_def client_options_def keys_at_def cached_key_def warm_client_def)
  have r: "fetches (snd (getSigningKey client_options (keys_at 1700000660000) (JStr ''key-1'') warm_client)) = 2"
    by (simp add: getSigningKey_def client_options_def keys_at_def cached_key_def insert_key_def
        warm_client_def)
  have s: "map key_id (entries (lookups client_options six_keys new_client))
             = [JNum 6, JNum 5, JNum 4, JNum 3, JNum 2]"
    by code_simp
  note t = key_cache_ttl_and_capacity [where src = "keys_at 1700000300000" and k = "JStr ''key-1''"
      and st = warm_client and pk = "''PUBLIC KEY 1''" and st' = warm_client and rs = six_keys]
  have f: "fetches warm_client = fetches warm_client"
    by (rule refl)
  from t [THEN conjunct2, THEN conjunct2, THEN conjunct1] g f
  have a: "\<exists>e \<in> set (entries warm_client). key_id e = JStr ''key-1'' \<and> public_key e = ''PUBLIC KEY 1'' \<and>
      now_ms (keys_at 1700000300000) - fetched_at e < 600 * 1000"
    by (rule mp [OF _ conjI])
  note c = t [THEN conjunct2, THEN conjunct2, THEN conjunct2]
  show ?thesis
    by (rule conjI [OF g conjI [OF a conjI [OF r conjI [OF c s]]]])
qed

end
